theory Spec2Isabelle
  imports Complex_Main "HOL-Library.Word"
begin

section \<open>Python numbers as the serializers use them\<close>

text \<open>
  The serializers of \<^verbatim>\<open>store/serializers.py\<close> compute with Python \<^verbatim>\<open>int\<close> (quantities)
  and \<^verbatim>\<open>decimal.Decimal\<close> (prices). A finite \<^verbatim>\<open>Decimal\<close> is a signed coefficient and
  a power of ten; the record below keeps the sign in the coefficient, so it does not tell
  \<^verbatim>\<open>-0\<close> from \<^verbatim>\<open>0\<close>. Every arithmetic operation of \<^verbatim>\<open>Decimal\<close> computes the exact
  result and then rounds it to the precision of the context, which nothing in the
  repository changes from the default: 28 significant digits, \<^verbatim>\<open>ROUND_HALF_EVEN\<close>.
  The exponent limits of the context (\<^verbatim>\<open>Emax = 999999\<close>) and the special values are left
  out: a price read from a decimal column is finite and nowhere near them.
\<close>

record decimal =
  coeff :: int
  expo :: int

text \<open>The value denoted by a decimal, as a rational number.\<close>

definition dec_val :: "decimal \<Rightarrow> rat" where
  "dec_val d =
     (if 0 \<le> expo d then of_int (coeff d) * 10 ^ nat (expo d)
      else of_int (coeff d) / 10 ^ nat (- expo d))"

text \<open>\<^verbatim>\<open>len(str(n))\<close> for a non-negative integer \<open>n\<close>.\<close>

function ndigits :: "int \<Rightarrow> nat" where
  "ndigits n = (if n < 10 then 1 else Suc (ndigits (n div 10)))"
  by pat_completeness auto
termination
  by (relation "measure nat") auto

declare ndigits.simps [simp del]

definition prec :: nat where
  "prec = 28"

text \<open>
  \<^verbatim>\<open>Decimal._fix\<close>: a coefficient of more than \<open>prec\<close> digits loses its last digits,
  rounding half to even; when rounding up carries into one digit more, the trailing zero
  is dropped and the exponent raised once more.
\<close>

definition fix_dec :: "decimal \<Rightarrow> decimal" where
  "fix_dec d =
     (let a = \<bar>coeff d\<bar>; n = ndigits a in
      if n \<le> prec then d
      else
        let k = n - prec;
            q = a div 10 ^ k;
            r = a mod 10 ^ k;
            q' = (if 10 ^ k < 2 * r \<or> (2 * r = 10 ^ k \<and> odd q) then q + 1 else q);
            e' = expo d + int k
        in if prec < ndigits q'
           then \<lparr>coeff = sgn (coeff d) * (q' div 10), expo = e' + 1\<rparr>
           else \<lparr>coeff = sgn (coeff d) * q', expo = e'\<rparr>)"

text \<open>\<^verbatim>\<open>Decimal(n)\<close> for an \<^verbatim>\<open>int\<close>: exact, whatever the number of digits.\<close>

definition dec_of_int :: "int \<Rightarrow> decimal" where
  "dec_of_int n = \<lparr>coeff = n, expo = 0\<rparr>"

text \<open>\<^verbatim>\<open>Decimal.__mul__\<close>: coefficients multiplied, exponents added, then \<^verbatim>\<open>_fix\<close>.\<close>

definition dec_mul :: "decimal \<Rightarrow> decimal \<Rightarrow> decimal" where
  "dec_mul x y = fix_dec \<lparr>coeff = coeff x * coeff y, expo = expo x + expo y\<rparr>"

text \<open>
  \<^verbatim>\<open>Decimal.__add__\<close>: both operands brought to the smaller exponent, coefficients added,
  then \<^verbatim>\<open>_fix\<close>.
\<close>

definition dec_add :: "decimal \<Rightarrow> decimal \<Rightarrow> decimal" where
  "dec_add x y =
     (let e = min (expo x) (expo y) in
      fix_dec \<lparr>coeff = coeff x * 10 ^ nat (expo x - e) + coeff y * 10 ^ nat (expo y - e),
               expo = e\<rparr>)"

text \<open>
  \<^verbatim>\<open>quantity * unit_price\<close> with an \<^verbatim>\<open>int\<close> on the left: \<^verbatim>\<open>int.__mul__\<close> gives up,
  \<^verbatim>\<open>Decimal.__rmul__\<close> converts the \<^verbatim>\<open>int\<close> and multiplies.
\<close>

definition int_mul_dec :: "int \<Rightarrow> decimal \<Rightarrow> decimal" where
  "int_mul_dec n d = dec_mul d (dec_of_int n)"

text \<open>A value that is an \<^verbatim>\<open>int\<close> or a \<^verbatim>\<open>Decimal\<close>, as the result of \<^verbatim>\<open>sum\<close> is.\<close>

datatype number = PyInt int | PyDecimal decimal

fun num_val :: "number \<Rightarrow> rat" where
  "num_val (PyInt n) = of_int n"
| "num_val (PyDecimal d) = dec_val d"

text \<open>\<^verbatim>\<open>acc + x\<close> for an accumulator that is an \<^verbatim>\<open>int\<close> or a \<^verbatim>\<open>Decimal\<close> and a \<^verbatim>\<open>Decimal\<close> \<open>x\<close>.\<close>

fun py_add :: "number \<Rightarrow> decimal \<Rightarrow> number" where
  "py_add (PyInt n) x = PyDecimal (dec_add x (dec_of_int n))"
| "py_add (PyDecimal a) x = PyDecimal (dec_add a x)"

text \<open>
  The builtin \<^verbatim>\<open>sum\<close> over a list of decimals: it starts from the \<^verbatim>\<open>int\<close> \<open>0\<close> and adds
  the elements from left to right, so the sum of no element is the \<^verbatim>\<open>int\<close> \<open>0\<close>.
\<close>

definition py_sum :: "decimal list \<Rightarrow> number" where
  "py_sum xs = foldl py_add (PyInt 0) xs"

text \<open>
  The coefficient of a decimal once it is written at a smaller exponent \<open>e\<close>: with it,
  decimals of different exponents are compared and added as integers.
\<close>

definition scaled :: "int \<Rightarrow> decimal \<Rightarrow> int" where
  "scaled e d = coeff d * 10 ^ nat (expo d - e)"

subsection \<open>The constant \<^verbatim>\<open>Decimal(1.1)\<close>\<close>

text \<open>
  \<^verbatim>\<open>1.1\<close> is a float literal. It lies between 1 and 2, where the doubles are the
  multiples of \<open>2 ^ -52\<close>, and Python reads it as the nearest of them (ties to even).
\<close>

definition round_half_even :: "rat \<Rightarrow> int" where
  "round_half_even x =
     (let f = \<lfloor>x\<rfloor>; r = x - of_int f in
      if r < 1 / 2 then f else if 1 / 2 < r then f + 1 else if even f then f else f + 1)"

definition float_1_1 :: rat where
  "float_1_1 = of_int (round_half_even (11 / 10 * 2 ^ 52)) / 2 ^ 52"

text \<open>\<^verbatim>\<open>int.bit_length\<close> of a non-negative integer.\<close>

function bit_length :: "int \<Rightarrow> nat" where
  "bit_length n = (if n \<le> 0 then 0 else Suc (bit_length (n div 2)))"
  by pat_completeness auto
termination
  by (relation "measure nat") auto

declare bit_length.simps [simp del]

text \<open>
  \<^verbatim>\<open>Decimal(f)\<close> for a float \<open>f\<close> is \<^verbatim>\<open>Decimal.from_float(f)\<close>: with \<open>n / d\<close> the float as a
  fraction in lowest terms (\<^verbatim>\<open>as_integer_ratio\<close>; \<open>d\<close> is a power of two) and
  \<open>k = d.bit_length() - 1\<close>, the coefficient is \<open>n * 5 ^ k\<close> and the exponent \<open>- k\<close>.
  The conversion is exact: no rounding to the context's precision takes place.
\<close>

definition from_float :: "rat \<Rightarrow> decimal" where
  "from_float f =
     (let (n, d) = quotient_of \<bar>f\<bar>; k = bit_length d - 1 in
      \<lparr>coeff = (if f < 0 then - 1 else 1) * n * 5 ^ k, expo = - int k\<rparr>)"

section \<open>The store\<close>

text \<open>
  \<^verbatim>\<open>store/models.py\<close> is not among the sources. The tables below carry the columns that
  the serializers and views read: the fields listed in the serializers' docstrings, the
  foreign keys the views filter on (\<^verbatim>\<open>cart_id\<close>, \<^verbatim>\<open>product_id\<close>) and the reverse
  relations they count (\<^verbatim>\<open>collection.products\<close>, \<^verbatim>\<open>product.orderitems\<close>,
  \<^verbatim>\<open>cart.items\<close>). A table is the list of its rows in insertion order.
\<close>

type_synonym uuid = "128 word"

record Collection =
  collection_pk :: int
  collection_title :: string

record Product =
  product_pk :: int
  product_title :: string
  description :: string
  slug :: string
  inventory :: int
  unit_price :: decimal
  collection_id :: int

record OrderItem =
  orderitem_pk :: int
  orderitem_product_id :: int

record CartItem =
  cartitem_pk :: int
  cart_id :: uuid
  product_id :: int
  quantity :: int

record store =
  collections :: "Collection list"
  products :: "Product list"
  orderitems :: "OrderItem list"
  carts :: "uuid list"
  cartitems :: "CartItem list"
  cartitem_seq :: int

text \<open>
  The exceptions that the modelled code can raise. A \<^verbatim>\<open>ValidationError\<close> carries the
  messages by field, as the \<^verbatim>\<open>errors\<close> dictionary of a serializer does.
\<close>

datatype error =
    ValidationError "(string \<times> string) list"
  | Http404
  | DoesNotExist
  | MultipleObjectsReturned
  | IntegrityError

text \<open>\<^verbatim>\<open>Response(data, status=...)\<close>; \<^verbatim>\<open>Response(status=...)\<close> has no data.\<close>

datatype response = Response (data: "(string \<times> string) list option") (status: nat)

definition HTTP_204_NO_CONTENT :: nat where
  "HTTP_204_NO_CONTENT = 204"

definition HTTP_405_METHOD_NOT_ALLOWED :: nat where
  "HTTP_405_METHOD_NOT_ALLOWED = 405"

section \<open>The object-relational layer\<close>

text \<open>
  The calls that the serializers and views make on Django's model managers, by what they
  do to the tables. A call that raises leaves the store as it was.
\<close>

text \<open>\<^verbatim>\<open>Product.objects.filter(pk=value).exists()\<close>\<close>

definition product_exists :: "store \<Rightarrow> int \<Rightarrow> bool" where
  "product_exists st v = list_ex (\<lambda>p. product_pk p = v) (products st)"

text \<open>
  \<^verbatim>\<open>CartItem.objects.get(cart_id=..., product_id=...)\<close>: the one matching row;
  \<^verbatim>\<open>DoesNotExist\<close> when there is none and \<^verbatim>\<open>MultipleObjectsReturned\<close> when there are
  several.
\<close>

definition objects_get :: "CartItem list \<Rightarrow> uuid \<Rightarrow> int \<Rightarrow> error + CartItem" where
  "objects_get rows c p =
     (case filter (\<lambda>r. cart_id r = c \<and> product_id r = p) rows of
        [] \<Rightarrow> Inl DoesNotExist
      | [r] \<Rightarrow> Inr r
      | _ \<Rightarrow> Inl MultipleObjectsReturned)"

text \<open>\<^verbatim>\<open>instance.save()\<close> of a row read from the table: the row of that primary key is rewritten.\<close>

definition model_save :: "CartItem \<Rightarrow> CartItem list \<Rightarrow> CartItem list" where
  "model_save r rows = map (\<lambda>x. if cartitem_pk x = cartitem_pk r then r else x) rows"

text \<open>
  \<^verbatim>\<open>CartItem.objects.create(cart_id=..., product_id=..., quantity=...)\<close>: a new row with the
  next primary key of the sequence. Both references are foreign keys, so the insert fails
  with \<^verbatim>\<open>IntegrityError\<close> when the cart or the product is not there.
\<close>

definition objects_create :: "store \<Rightarrow> uuid \<Rightarrow> int \<Rightarrow> int \<Rightarrow> (error + CartItem) \<times> store" where
  "objects_create st c p q =
     (if c \<notin> set (carts st) \<or> \<not> product_exists st p then (Inl IntegrityError, st)
      else
        let r = \<lparr>cartitem_pk = cartitem_seq st, cart_id = c, product_id = p, quantity = q\<rparr>
        in (Inr r, st\<lparr>cartitems := cartitems st @ [r], cartitem_seq := cartitem_seq st + 1\<rparr>))"

text \<open>\<^verbatim>\<open>get_object_or_404(Model, pk=pk)\<close>\<close>

definition get_object_or_404 :: "('a \<Rightarrow> int) \<Rightarrow> 'a list \<Rightarrow> int \<Rightarrow> error + 'a" where
  "get_object_or_404 key rows pk =
     (case find (\<lambda>r. key r = pk) rows of None \<Rightarrow> Inl Http404 | Some r \<Rightarrow> Inr r)"

text \<open>\<^verbatim>\<open>collection.products.count()\<close> and \<^verbatim>\<open>product.orderitems.count()\<close>\<close>

definition products_count :: "store \<Rightarrow> Collection \<Rightarrow> nat" where
  "products_count st collection =
     length (filter (\<lambda>p. collection_id p = collection_pk collection) (products st))"

definition orderitems_count :: "store \<Rightarrow> Product \<Rightarrow> nat" where
  "orderitems_count st product =
     length (filter (\<lambda>oi. orderitem_product_id oi = product_pk product) (orderitems st))"

text \<open>
  \<^verbatim>\<open>collection.delete()\<close> and \<^verbatim>\<open>product.delete()\<close>. Both views call them only after
  the guard on the protecting relation, with no dependent row of that relation left; the
  cart items that refer to a deleted product go with it.
\<close>

definition Collection_delete :: "Collection \<Rightarrow> store \<Rightarrow> store" where
  "Collection_delete collection st =
     st\<lparr>collections := filter (\<lambda>c. collection_pk c \<noteq> collection_pk collection) (collections st)\<rparr>"

definition Product_delete :: "Product \<Rightarrow> store \<Rightarrow> store" where
  "Product_delete product st =
     st\<lparr>products := filter (\<lambda>p. product_pk p \<noteq> product_pk product) (products st),
        cartitems := filter (\<lambda>r. product_id r \<noteq> product_pk product) (cartitems st)\<rparr>"

text \<open>\<^verbatim>\<open>cart.items.all()\<close> and \<^verbatim>\<open>item.product\<close>\<close>

definition items_all :: "store \<Rightarrow> uuid \<Rightarrow> CartItem list" where
  "items_all st cart = filter (\<lambda>r. cart_id r = cart) (cartitems st)"

definition item_product :: "store \<Rightarrow> CartItem \<Rightarrow> error + Product" where
  "item_product st item =
     (case find (\<lambda>p. product_pk p = product_id item) (products st) of
        None \<Rightarrow> Inl DoesNotExist
      | Some p \<Rightarrow> Inr p)"

section \<open>Serializers\<close>

text \<open>\<^verbatim>\<open>ProductSerializer.calculate_tax\<close>: \<^verbatim>\<open>product.unit_price * Decimal(1.1)\<close>\<close>

definition calculate_tax :: "Product \<Rightarrow> decimal" where
  "calculate_tax product = dec_mul (unit_price product) (from_float float_1_1)"

text \<open>\<^verbatim>\<open>CartItemSerializer.get_total_price\<close>: \<^verbatim>\<open>cart_item.quantity * cart_item.product.unit_price\<close>\<close>

definition CartItemSerializer_get_total_price :: "store \<Rightarrow> CartItem \<Rightarrow> error + decimal" where
  "CartItemSerializer_get_total_price st cart_item =
     (case item_product st cart_item of
        Inl e \<Rightarrow> Inl e
      | Inr product \<Rightarrow> Inr (int_mul_dec (quantity cart_item) (unit_price product)))"

text \<open>
  \<^verbatim>\<open>CartSerializer.get_total_price\<close>:
  \<^verbatim>\<open>sum([item.quantity * item.product.unit_price for item in cart.items.all()])\<close>.
  The list comprehension is the recursion \<open>comprehension\<close>; an exception in one element
  ends it.
\<close>

fun comprehension :: "store \<Rightarrow> CartItem list \<Rightarrow> error + decimal list" where
  "comprehension st [] = Inr []"
| "comprehension st (item # items) =
     (case item_product st item of
        Inl e \<Rightarrow> Inl e
      | Inr product \<Rightarrow>
          (case comprehension st items of
             Inl e \<Rightarrow> Inl e
           | Inr xs \<Rightarrow> Inr (int_mul_dec (quantity item) (unit_price product) # xs)))"

definition CartSerializer_get_total_price :: "store \<Rightarrow> uuid \<Rightarrow> error + number" where
  "CartSerializer_get_total_price st cart =
     (case comprehension st (items_all st cart) of
        Inl e \<Rightarrow> Inl e
      | Inr xs \<Rightarrow> Inr (py_sum xs))"

text \<open>
  \<^verbatim>\<open>item.product.unit_price\<close> and \<^verbatim>\<open>item.quantity * item.product.unit_price\<close> as plain
  values, for an item whose product is in the store.
\<close>

definition item_unit_price :: "store \<Rightarrow> CartItem \<Rightarrow> decimal" where
  "item_unit_price st item =
     (case item_product st item of Inr product \<Rightarrow> unit_price product | Inl _ \<Rightarrow> dec_of_int 0)"

definition line_total :: "store \<Rightarrow> CartItem \<Rightarrow> decimal" where
  "line_total st item = int_mul_dec (quantity item) (item_unit_price st item)"

subsection \<open>Validation\<close>

text \<open>
  A request body is taken as the list of its integer-valued fields by name. A field that
  the serializer declares and the body lacks is an error, except in a partial update.
\<close>

type_synonym payload = "(string \<times> int) list"

text \<open>\<^verbatim>\<open>AddCartItemSerializer.validate_product_id\<close>\<close>

definition validate_product_id :: "store \<Rightarrow> int \<Rightarrow> string + int" where
  "validate_product_id st v =
     (if \<not> product_exists st v then Inl ''No product with the given ID was found.''
      else Inr v)"

text \<open>
  Modelled from the spec: the \<^verbatim>\<open>quantity\<close> column of \<^verbatim>\<open>CartItem\<close> and its validators are
  declared in \<^verbatim>\<open>store/models.py\<close>, which is missing. The specification has quantity a
  positive integer (\<open>quantity > 0\<close>; "quantity must be positive").
\<close>

definition validate_quantity :: "int \<Rightarrow> string + int" where
  "validate_quantity v = (if v \<le> 0 then Inl ''quantity must be positive'' else Inr v)"

definition run_field :: "payload \<Rightarrow> string \<Rightarrow> (int \<Rightarrow> string + int) \<Rightarrow> string + int" where
  "run_field body name validate =
     (case map_of body name of None \<Rightarrow> Inl ''This field is required.'' | Some v \<Rightarrow> validate v)"

definition field_errors :: "string \<Rightarrow> string + int \<Rightarrow> (string \<times> string) list" where
  "field_errors name r = (case r of Inl m \<Rightarrow> [(name, m)] | Inr _ \<Rightarrow> [])"

text \<open>
  \<^verbatim>\<open>AddCartItemSerializer(data=...).is_valid(raise_exception=True)\<close>: every field is
  validated and the errors of all of them are gathered; the validated data are the
  product id and the quantity.
\<close>

definition AddCartItemSerializer_is_valid :: "store \<Rightarrow> payload \<Rightarrow> error + int \<times> int" where
  "AddCartItemSerializer_is_valid st body =
     (let p = run_field body ''product_id'' (validate_product_id st);
          q = run_field body ''quantity'' validate_quantity
      in case (p, q) of
           (Inr pid, Inr qty) \<Rightarrow> Inr (pid, qty)
         | _ \<Rightarrow> Inl (ValidationError (field_errors ''product_id'' p @ field_errors ''quantity'' q)))"

text \<open>
  \<^verbatim>\<open>UpdateCartItemSerializer(instance, data=..., partial=True).is_valid(...)\<close>: the only
  field is \<^verbatim>\<open>quantity\<close>, and a partial update may leave it out.
\<close>

definition UpdateCartItemSerializer_is_valid :: "payload \<Rightarrow> error + int option" where
  "UpdateCartItemSerializer_is_valid body =
     (case map_of body ''quantity'' of
        None \<Rightarrow> Inr None
      | Some v \<Rightarrow>
          (case validate_quantity v of
             Inl m \<Rightarrow> Inl (ValidationError [(''quantity'', m)])
           | Inr q \<Rightarrow> Inr (Some q)))"

subsection \<open>\<^verbatim>\<open>AddCartItemSerializer.save\<close>\<close>

definition AddCartItemSerializer_save ::
  "store \<Rightarrow> uuid \<Rightarrow> int \<times> int \<Rightarrow> (error + CartItem) \<times> store" where
  "AddCartItemSerializer_save st cart validated_data =
     (let pid = fst validated_data; qty = snd validated_data in
      case objects_get (cartitems st) cart pid of
        Inr cart_item \<Rightarrow>
          (let cart_item' = cart_item\<lparr>quantity := quantity cart_item + qty\<rparr>
           in (Inr cart_item', st\<lparr>cartitems := model_save cart_item' (cartitems st)\<rparr>))
      | Inl DoesNotExist \<Rightarrow> objects_create st cart pid qty
      | Inl e \<Rightarrow> (Inl e, st))"

text \<open>\<^verbatim>\<open>UpdateCartItemSerializer.save\<close>: the validated fields are set on the instance, which is saved.\<close>

definition UpdateCartItemSerializer_save ::
  "store \<Rightarrow> CartItem \<Rightarrow> int option \<Rightarrow> CartItem \<times> store" where
  "UpdateCartItemSerializer_save st instance validated_data =
     (let instance' = (case validated_data of None \<Rightarrow> instance
                       | Some q \<Rightarrow> instance\<lparr>quantity := q\<rparr>)
      in (instance', st\<lparr>cartitems := model_save instance' (cartitems st)\<rparr>))"

section \<open>Views\<close>

text \<open>\<^verbatim>\<open>ProductViewSet.delete\<close>\<close>

definition ProductViewSet_delete :: "store \<Rightarrow> int \<Rightarrow> (error + response) \<times> store" where
  "ProductViewSet_delete st pk =
     (case get_object_or_404 product_pk (products st) pk of
        Inl e \<Rightarrow> (Inl e, st)
      | Inr product \<Rightarrow>
          if 0 < orderitems_count st product
          then (Inr (Response
                  (Some [(''error'',
                     ''Product cannot be deleted because it is associated with an order item.'')])
                  HTTP_405_METHOD_NOT_ALLOWED), st)
          else (Inr (Response None HTTP_204_NO_CONTENT), Product_delete product st))"

text \<open>\<^verbatim>\<open>CollectionViewSet.delete\<close>\<close>

definition CollectionViewSet_delete :: "store \<Rightarrow> int \<Rightarrow> (error + response) \<times> store" where
  "CollectionViewSet_delete st pk =
     (case get_object_or_404 collection_pk (collections st) pk of
        Inl e \<Rightarrow> (Inl e, st)
      | Inr collection \<Rightarrow>
          if 0 < products_count st collection
          then (Inr (Response
                  (Some [(''error'',
                     ''Collection cannot be deleted because it includes one or more products.'')])
                  HTTP_405_METHOD_NOT_ALLOWED), st)
          else (Inr (Response None HTTP_204_NO_CONTENT), Collection_delete collection st))"

text \<open>
  \<^verbatim>\<open>CartItemViewSet\<close> and \<^verbatim>\<open>CartViewSet\<close> define no handler of their own: the actions are
  those of the framework's mixins, run on \<^verbatim>\<open>get_queryset\<close>, \<^verbatim>\<open>get_serializer_class\<close> and
  \<^verbatim>\<open>get_serializer_context\<close> of the view. The functions below return the instance a
  successful action leaves, in place of its serialized form.
\<close>

text \<open>\<^verbatim>\<open>CartItemViewSet.get_queryset\<close>, and \<^verbatim>\<open>get_object\<close> on it.\<close>

definition get_queryset :: "store \<Rightarrow> uuid \<Rightarrow> CartItem list" where
  "get_queryset st cart_pk = filter (\<lambda>r. cart_id r = cart_pk) (cartitems st)"

definition get_object :: "store \<Rightarrow> uuid \<Rightarrow> int \<Rightarrow> error + CartItem" where
  "get_object st cart_pk pk = get_object_or_404 cartitem_pk (get_queryset st cart_pk) pk"

text \<open>\<^verbatim>\<open>POST\<close>: \<^verbatim>\<open>AddCartItemSerializer\<close>, with \<^verbatim>\<open>cart_id\<close> from the path.\<close>

definition CartItemViewSet_create ::
  "store \<Rightarrow> uuid \<Rightarrow> payload \<Rightarrow> (error + CartItem) \<times> store" where
  "CartItemViewSet_create st cart_pk body =
     (case AddCartItemSerializer_is_valid st body of
        Inl e \<Rightarrow> (Inl e, st)
      | Inr validated_data \<Rightarrow> AddCartItemSerializer_save st cart_pk validated_data)"

text \<open>\<^verbatim>\<open>PATCH\<close>: \<^verbatim>\<open>UpdateCartItemSerializer\<close> on the item of the path.\<close>

definition CartItemViewSet_partial_update ::
  "store \<Rightarrow> uuid \<Rightarrow> int \<Rightarrow> payload \<Rightarrow> (error + CartItem) \<times> store" where
  "CartItemViewSet_partial_update st cart_pk pk body =
     (case get_object st cart_pk pk of
        Inl e \<Rightarrow> (Inl e, st)
      | Inr instance \<Rightarrow>
          (case UpdateCartItemSerializer_is_valid body of
             Inl e \<Rightarrow> (Inl e, st)
           | Inr validated_data \<Rightarrow>
               (let (instance', st') = UpdateCartItemSerializer_save st instance validated_data
                in (Inr instance', st'))))"

text \<open>\<^verbatim>\<open>DELETE\<close> of an item: the row of the path is deleted.\<close>

definition CartItemViewSet_destroy ::
  "store \<Rightarrow> uuid \<Rightarrow> int \<Rightarrow> (error + response) \<times> store" where
  "CartItemViewSet_destroy st cart_pk pk =
     (case get_object st cart_pk pk of
        Inl e \<Rightarrow> (Inl e, st)
      | Inr instance \<Rightarrow>
          (Inr (Response None HTTP_204_NO_CONTENT),
           st\<lparr>cartitems := filter (\<lambda>r. cartitem_pk r \<noteq> cartitem_pk instance) (cartitems st)\<rparr>))"

text \<open>\<^verbatim>\<open>DELETE\<close> of a cart: the cart is deleted, and its items with it.\<close>

definition CartViewSet_destroy :: "store \<Rightarrow> uuid \<Rightarrow> (error + response) \<times> store" where
  "CartViewSet_destroy st pk =
     (if pk \<notin> set (carts st) then (Inl Http404, st)
      else (Inr (Response None HTTP_204_NO_CONTENT),
            st\<lparr>carts := filter (\<lambda>c. c \<noteq> pk) (carts st),
               cartitems := filter (\<lambda>r. cart_id r \<noteq> pk) (cartitems st)\<rparr>))"

section \<open>The cart-item table: keys, pairs and reachable stores\<close>

text \<open>
  The database gives every cart item its own primary key, drawn from a sequence that only
  grows: the keys of the table are distinct and all below the next value of the sequence.
\<close>

definition primary_keys_ok :: "store \<Rightarrow> bool" where
  "primary_keys_ok st \<longleftrightarrow>
     distinct (map cartitem_pk (cartitems st)) \<and>
     list_all (\<lambda>k. k < cartitem_seq st) (map cartitem_pk (cartitems st))"

text \<open>The natural key of a cart item, and the table having no two rows of the same key.\<close>

definition pair_of :: "CartItem \<Rightarrow> uuid \<times> int" where
  "pair_of r = (cart_id r, product_id r)"

definition one_row_per_pair :: "store \<Rightarrow> bool" where
  "one_row_per_pair st \<longleftrightarrow> distinct (map pair_of (cartitems st))"

definition store_inv :: "store \<Rightarrow> bool" where
  "store_inv st \<longleftrightarrow> primary_keys_ok st \<and> one_row_per_pair st"

text \<open>
  The stores that the cart-item operations reach, one request after the other, from a
  store with no cart item: adding an item, updating one, removing one, deleting a cart.
  A request that fails is a step as well (it leaves the store as it was).
\<close>

inductive reachable :: "store \<Rightarrow> bool" where
  initial: "cartitems st = [] \<Longrightarrow> reachable st"
| add: "reachable st \<Longrightarrow> CartItemViewSet_create st cart_pk body = (res, st') \<Longrightarrow> reachable st'"
| update: "reachable st \<Longrightarrow> CartItemViewSet_partial_update st cart_pk pk body = (res, st')
     \<Longrightarrow> reachable st'"
| remove: "reachable st \<Longrightarrow> CartItemViewSet_destroy st cart_pk pk = (res', st') \<Longrightarrow> reachable st'"
| cart_delete: "reachable st \<Longrightarrow> CartViewSet_destroy st cart_pk = (res', st') \<Longrightarrow> reachable st'"

section \<open>An example store\<close>

text \<open>
  Two products of one collection, one of them on an order, and one cart; \<open>shop_with_tea\<close>
  is \<open>shop\<close> after two units of tea have been added to the cart.
\<close>

definition tea :: Product where
  "tea = \<lparr>product_pk = 1, product_title = ''Tea'', description = ''Green tea, 100 g'',
     slug = ''tea'', inventory = 10, unit_price = \<lparr>coeff = 1000, expo = - 2\<rparr>,
     collection_id = 1\<rparr>"

definition mug :: Product where
  "mug = \<lparr>product_pk = 2, product_title = ''Mug'', description = ''Stoneware mug'',
     slug = ''mug'', inventory = 3, unit_price = \<lparr>coeff = 450, expo = - 2\<rparr>,
     collection_id = 1\<rparr>"

definition kitchen :: Collection where
  "kitchen = \<lparr>collection_pk = 1, collection_title = ''Kitchen''\<rparr>"

definition shop :: store where
  "shop = \<lparr>collections = [kitchen, \<lparr>collection_pk = 2, collection_title = ''Garden''\<rparr>],
     products = [tea, mug],
     orderitems = [\<lparr>orderitem_pk = 1, orderitem_product_id = 1\<rparr>],
     carts = [7],
     cartitems = [],
     cartitem_seq = 1\<rparr>"

definition tea_line :: CartItem where
  "tea_line = \<lparr>cartitem_pk = 1, cart_id = 7, product_id = 1, quantity = 2\<rparr>"

definition shop_with_tea :: store where
  "shop_with_tea = shop\<lparr>cartitems := [tea_line], cartitem_seq := 2\<rparr>"

text \<open>The cart of \<open>shop_with_tea\<close> with three mugs added as a second line.\<close>

definition shop_two_lines :: store where
  "shop_two_lines =
     shop\<lparr>cartitems := [tea_line, \<lparr>cartitem_pk = 2, cart_id = 7, product_id = 2, quantity = 3\<rparr>],
          cartitem_seq := 3\<rparr>"

section \<open>Lemmas on decimal arithmetic\<close>

lemma from_float_1_1:
  "from_float float_1_1 =
     \<lparr>coeff = 1100000000000000088817841970012523233890533447265625, expo = - 51\<rparr>"
  by code_simp

lemma ndigits_le:
  "a < 10 ^ n \<Longrightarrow> 0 < n \<Longrightarrow> ndigits a \<le> n"
proof (induction n arbitrary: a)
  case 0
  then show ?case by simp
next
  case (Suc n)
  show ?case
  proof (cases "a < 10")
    case True
    then show ?thesis by (simp add: ndigits.simps)
  next
    case False
    then have "0 < n"
      using Suc.prems(1) by (cases n) auto
    moreover have "a div 10 < 10 ^ n"
      using Suc.prems(1) by (simp add: div_less_iff_less_mult) 
    ultimately have "ndigits (a div 10) \<le> n"
      using Suc.IH by blast
    then show ?thesis
      using False by (simp add: ndigits.simps)
  qed
qed

lemma fix_dec_exact:
  assumes "\<bar>coeff d\<bar> < 10 ^ prec"
  shows "fix_dec d = d"
proof -
  have "ndigits \<bar>coeff d\<bar> \<le> prec"
    using assms by (intro ndigits_le) (simp_all add: prec_def)
  then show ?thesis
    by (simp add: fix_dec_def Let_def)
qed

lemma dec_val_powi: "dec_val d = of_int (coeff d) * 10 powi (expo d)"
proof (cases "0 \<le> expo d")
  case True
  then show ?thesis by (simp add: dec_val_def power_int_def)
next
  case False
  then have "(10::rat) powi (expo d) = inverse (10 ^ nat (- expo d))"
    by (simp add: power_int_def power_one_over inverse_eq_divide)
  then show ?thesis
    using False by (simp only: dec_val_def if_False divide_inverse)
qed

lemma dec_val_scaled:
  assumes "e \<le> expo d"
  shows "dec_val d = of_int (scaled e d) * 10 powi e"
proof -
  have "(10::rat) powi (expo d) = 10 powi (int (nat (expo d - e)) + e)"
    using assms by simp
  also have "\<dots> = 10 ^ nat (expo d - e) * 10 powi e"
    by (simp only: power_int_add [of "10::rat", simplified] power_int_of_nat)
  finally show ?thesis
    by (simp add: dec_val_powi scaled_def)
qed

lemma scaled_rescale:
  assumes "e \<le> m" and "m \<le> expo d"
  shows "scaled e d = scaled m d * 10 ^ nat (m - e)"
proof -
  have "nat (expo d - e) = nat (expo d - m) + nat (m - e)"
    using assms by simp
  then show ?thesis
    by (simp add: scaled_def power_add)
qed

lemma abs_le_abs_mult_power:
  fixes c :: int
  shows "\<bar>c\<bar> \<le> \<bar>c * 10 ^ k\<bar>"
proof -
  have "(1::int) \<le> 10 ^ k" by simp
  then have "\<bar>c\<bar> * 1 \<le> \<bar>c\<bar> * 10 ^ k"
    by (intro mult_left_mono) simp_all
  then show ?thesis
    by (simp add: abs_mult)
qed

lemma dec_add_exact:
  assumes "e \<le> expo x" and "e \<le> expo y"
    and "\<bar>scaled e x + scaled e y\<bar> < 10 ^ prec"
  shows "e \<le> expo (dec_add x y) \<and> scaled e (dec_add x y) = scaled e x + scaled e y"
proof -
  let ?m = "min (expo x) (expo y)"
  let ?raw = "\<lparr>coeff = scaled ?m x + scaled ?m y, expo = ?m\<rparr>"
  have em: "e \<le> ?m" using assms(1,2) by simp
  have sum: "scaled e x + scaled e y = (scaled ?m x + scaled ?m y) * 10 ^ nat (?m - e)"
    using scaled_rescale [OF em, of x] scaled_rescale [OF em, of y]
    by (simp add: distrib_right)
  have "\<bar>coeff ?raw\<bar> \<le> \<bar>scaled e x + scaled e y\<bar>"
    unfolding sum by (simp add: abs_le_abs_mult_power)
  then have "\<bar>coeff ?raw\<bar> < 10 ^ prec"
    using assms(3) by linarith
  then have "fix_dec ?raw = ?raw"
    by (rule fix_dec_exact)
  then have eq: "dec_add x y = ?raw"
    by (simp add: dec_add_def Let_def scaled_def)
  show ?thesis
    using em by (simp add: eq sum) (simp add: scaled_def)
qed

lemma int_mul_dec_exact:
  assumes "\<bar>q * coeff d\<bar> < 10 ^ prec"
  shows "int_mul_dec q d = \<lparr>coeff = coeff d * q, expo = expo d\<rparr>"
proof -
  have "\<bar>coeff \<lparr>coeff = coeff d * q, expo = expo d\<rparr>\<bar> < 10 ^ prec"
    using assms by (simp add: mult.commute)
  then have "fix_dec \<lparr>coeff = coeff d * q, expo = expo d\<rparr> = \<lparr>coeff = coeff d * q, expo = expo d\<rparr>"
    by (rule fix_dec_exact)
  then show ?thesis
    by (simp add: int_mul_dec_def dec_mul_def dec_of_int_def)
qed

lemma int_mul_dec_val:
  assumes "\<bar>q * coeff d\<bar> < 10 ^ prec"
  shows "dec_val (int_mul_dec q d) = of_int q * dec_val d"
  using int_mul_dec_exact [OF assms] by (simp add: dec_val_powi)

lemma foldl_py_add_exact:
  assumes "e \<le> expo a" and "\<forall>d \<in> set xs. e \<le> expo d"
    and "\<bar>scaled e a\<bar> + (\<Sum>d\<leftarrow>xs. \<bar>scaled e d\<bar>) < 10 ^ prec"
  shows "\<exists>z. foldl py_add (PyDecimal a) xs = PyDecimal z \<and> e \<le> expo z
           \<and> scaled e z = scaled e a + (\<Sum>d\<leftarrow>xs. scaled e d)"
  using assms
proof (induction xs arbitrary: a)
  case Nil
  then show ?case by simp
next
  case (Cons x xs)
  have nonneg: "0 \<le> (\<Sum>d\<leftarrow>xs. \<bar>scaled e d\<bar>)"
    by (rule sum_list_nonneg) auto
  have "\<bar>scaled e a + scaled e x\<bar> \<le> \<bar>scaled e a\<bar> + \<bar>scaled e x\<bar>"
    by (rule abs_triangle_ineq)
  then have small: "\<bar>scaled e a + scaled e x\<bar> < 10 ^ prec"
    using Cons.prems(3) nonneg by simp
  have ex: "e \<le> expo x"
    using Cons.prems(2) by simp
  have step: "e \<le> expo (dec_add a x) \<and> scaled e (dec_add a x) = scaled e a + scaled e x"
    using dec_add_exact [OF Cons.prems(1) ex small] .
  have bound: "\<bar>scaled e (dec_add a x)\<bar> + (\<Sum>d\<leftarrow>xs. \<bar>scaled e d\<bar>) < 10 ^ prec"
    using step Cons.prems(3) by simp
  obtain z where z: "foldl py_add (PyDecimal (dec_add a x)) xs = PyDecimal z" "e \<le> expo z"
      "scaled e z = scaled e (dec_add a x) + (\<Sum>d\<leftarrow>xs. scaled e d)"
    using Cons.IH [of "dec_add a x"] step Cons.prems(2) bound by auto
  show ?case
    using z step by simp
qed

lemma sum_list_dec_val:
  assumes "\<forall>d \<in> set xs. e \<le> expo d"
  shows "(\<Sum>d\<leftarrow>xs. dec_val d) = of_int (\<Sum>d\<leftarrow>xs. scaled e d) * 10 powi e"
  using assms
  by (induction xs) (simp_all add: dec_val_scaled distrib_right)

lemma py_sum_exact:
  assumes "e \<le> 0" and "\<forall>d \<in> set xs. e \<le> expo d"
    and "(\<Sum>d\<leftarrow>xs. \<bar>scaled e d\<bar>) < 10 ^ prec"
  shows "num_val (py_sum xs) = (\<Sum>d\<leftarrow>xs. dec_val d)"
proof (cases xs)
  case Nil
  then show ?thesis by (simp add: py_sum_def)
next
  case (Cons x ys)
  have nonneg: "0 \<le> (\<Sum>d\<leftarrow>ys. \<bar>scaled e d\<bar>)"
    by (rule sum_list_nonneg) auto
  have zero: "e \<le> expo (dec_of_int 0)" "scaled e (dec_of_int 0) = 0"
    using assms(1) by (simp_all add: dec_of_int_def scaled_def)
  have ex: "e \<le> expo x"
    using assms(2) Cons by simp
  have "\<bar>scaled e x + scaled e (dec_of_int 0)\<bar> < 10 ^ prec"
    using assms(3) Cons nonneg zero(2) by simp
  then have first: "e \<le> expo (dec_add x (dec_of_int 0))"
      "scaled e (dec_add x (dec_of_int 0)) = scaled e x"
    using dec_add_exact [OF ex zero(1)] zero(2) by simp_all
  have bound: "\<bar>scaled e (dec_add x (dec_of_int 0))\<bar> + (\<Sum>d\<leftarrow>ys. \<bar>scaled e d\<bar>) < 10 ^ prec"
    using assms(3) Cons first(2) by simp
  have rest: "\<forall>d \<in> set ys. e \<le> expo d"
    using assms(2) Cons by simp
  obtain z where z: "foldl py_add (PyDecimal (dec_add x (dec_of_int 0))) ys = PyDecimal z"
      "e \<le> expo z" "scaled e z = scaled e (dec_add x (dec_of_int 0)) + (\<Sum>d\<leftarrow>ys. scaled e d)"
    using foldl_py_add_exact [OF first(1) rest bound] by blast
  have "num_val (py_sum xs) = dec_val z"
    using z(1) Cons by (simp add: py_sum_def)
  also have "\<dots> = of_int (\<Sum>d\<leftarrow>xs. scaled e d) * 10 powi e"
    using z(3) first(2) Cons by (simp add: dec_val_scaled [OF z(2)])
  also have "\<dots> = (\<Sum>d\<leftarrow>xs. dec_val d)"
    using sum_list_dec_val [OF assms(2)] by simp
  finally show ?thesis .
qed

section \<open>Lemmas on the object-relational layer\<close>

lemma find_Some_ex:
  "x \<in> set xs \<Longrightarrow> P x \<Longrightarrow> \<exists>y. find P xs = Some y \<and> P y \<and> y \<in> set xs"
  by (induction xs) auto

lemma get_object_or_404_found:
  assumes "r \<in> set rows" "key r = pk"
  shows "\<exists>r'. get_object_or_404 key rows pk = Inr r' \<and> key r' = pk \<and> r' \<in> set rows"
  using find_Some_ex [of r rows "\<lambda>r. key r = pk"] assms
  by (auto simp: get_object_or_404_def)

lemma model_save_quantity:
  assumes "distinct (map cartitem_pk rows)" and "r \<in> set rows"
  shows "model_save (r\<lparr>quantity := q\<rparr>) rows = map (\<lambda>x. if x = r then r\<lparr>quantity := q\<rparr> else x) rows"
proof -
  have "inj_on cartitem_pk (set rows)"
    using assms(1) by (simp add: distinct_map)
  then have "\<And>x. x \<in> set rows \<Longrightarrow> cartitem_pk x = cartitem_pk r \<longleftrightarrow> x = r"
    using assms(2) by (auto dest: inj_onD)
  then show ?thesis
    by (simp add: model_save_def)
qed

lemma model_save_same:
  assumes "distinct (map cartitem_pk rows)" and "r \<in> set rows"
  shows "model_save r rows = rows"
  using model_save_quantity [OF assms, of "quantity r"] by (simp add: map_idI)

lemma map_pk_update:
  "map cartitem_pk (map (\<lambda>x. if x = r then r\<lparr>quantity := q\<rparr> else x) rows) = map cartitem_pk rows"
  by (induction rows) auto

lemma map_pair_update:
  "map pair_of (map (\<lambda>x. if x = r then r\<lparr>quantity := q\<rparr> else x) rows) = map pair_of rows"
  by (induction rows) (auto simp: pair_of_def)

lemma objects_get_Inr:
  "objects_get rows c p = Inr r \<longleftrightarrow> filter (\<lambda>r. cart_id r = c \<and> product_id r = p) rows = [r]"
  by (auto simp: objects_get_def split: list.splits)

lemma objects_get_DoesNotExist:
  "objects_get rows c p = Inl DoesNotExist \<longleftrightarrow> filter (\<lambda>r. cart_id r = c \<and> product_id r = p) rows = []"
  by (auto simp: objects_get_def split: list.splits)

lemma objects_get_Inr_mem:
  assumes "objects_get rows c p = Inr r"
  shows "r \<in> set rows \<and> cart_id r = c \<and> product_id r = p"
proof -
  have "r \<in> set (filter (\<lambda>r. cart_id r = c \<and> product_id r = p) rows)"
    using assms by (simp add: objects_get_Inr)
  then show ?thesis by simp
qed

lemma inv_update_quantity:
  assumes "store_inv st" and "r \<in> set (cartitems st)"
  shows "store_inv (st\<lparr>cartitems := model_save (r\<lparr>quantity := q\<rparr>) (cartitems st)\<rparr>)"
proof -
  have d: "distinct (map cartitem_pk (cartitems st))"
    using assms(1) by (simp add: store_inv_def primary_keys_ok_def)
  let ?rows = "model_save (r\<lparr>quantity := q\<rparr>) (cartitems st)"
  have pk: "map cartitem_pk ?rows = map cartitem_pk (cartitems st)"
    by (simp only: model_save_quantity [OF d assms(2)] map_pk_update)
  have pair: "map pair_of ?rows = map pair_of (cartitems st)"
    by (simp only: model_save_quantity [OF d assms(2)] map_pair_update)
  show ?thesis
    using assms(1) unfolding store_inv_def primary_keys_ok_def one_row_per_pair_def
    by (simp add: pk pair del: map_map)
qed

lemma inv_filter:
  assumes "store_inv st"
  shows "store_inv (st\<lparr>cartitems := filter P (cartitems st)\<rparr>)"
  using assms
  by (auto simp: store_inv_def primary_keys_ok_def one_row_per_pair_def distinct_map_filter list_all_iff)

lemma inv_save:
  assumes "store_inv st" and "AddCartItemSerializer_save st cart vd = (res, st')"
  shows "store_inv st'"
proof (cases "objects_get (cartitems st) cart (fst vd)")
  case (Inr r)
  then have "r \<in> set (cartitems st)"
    using objects_get_Inr_mem by blast
  then show ?thesis
    using assms Inr inv_update_quantity [of st r]
    by (auto simp: AddCartItemSerializer_save_def Let_def)
next
  case (Inl e)
  show ?thesis
  proof (cases "e = DoesNotExist")
    case True
    then have none: "filter (\<lambda>r. cart_id r = cart \<and> product_id r = fst vd) (cartitems st) = []"
      using Inl by (simp add: objects_get_DoesNotExist)
    then have fresh: "(cart, fst vd) \<notin> pair_of ` set (cartitems st)"
      by (auto simp: filter_empty_conv pair_of_def)
    show ?thesis
      using assms Inl True fresh
      by (fastforce simp: AddCartItemSerializer_save_def Let_def objects_create_def store_inv_def
          primary_keys_ok_def one_row_per_pair_def pair_of_def list_all_iff split: if_splits)
  next
    case False
    then show ?thesis
      using assms Inl
      by (cases e) (auto simp: AddCartItemSerializer_save_def Let_def)
  qed
qed

lemma inv_create:
  assumes "store_inv st" and "CartItemViewSet_create st cart_pk body = (res, st')"
  shows "store_inv st'"
  using assms inv_save
  by (auto simp: CartItemViewSet_create_def split: sum.splits)

lemma get_object_mem:
  assumes "get_object st cart_pk pk = Inr r"
  shows "r \<in> set (cartitems st) \<and> cart_id r = cart_pk \<and> cartitem_pk r = pk"
proof -
  have "find (\<lambda>r. cartitem_pk r = pk) (get_queryset st cart_pk) = Some r"
    using assms by (simp add: get_object_def get_object_or_404_def split: option.splits)
  then have "r \<in> set (get_queryset st cart_pk) \<and> cartitem_pk r = pk"
    by (auto simp: find_Some_iff)
  then show ?thesis by (simp add: get_queryset_def)
qed

lemma inv_partial_update:
  assumes "store_inv st" and "CartItemViewSet_partial_update st cart_pk pk body = (res, st')"
  shows "store_inv st'"
proof (cases "get_object st cart_pk pk")
  case (Inl e)
  then show ?thesis using assms by (simp add: CartItemViewSet_partial_update_def)
next
  case (Inr r)
  then have mem: "r \<in> set (cartitems st)"
    using get_object_mem by blast
  have d: "distinct (map cartitem_pk (cartitems st))"
    using assms(1) by (simp add: store_inv_def primary_keys_ok_def)
  have same: "st\<lparr>cartitems := model_save r (cartitems st)\<rparr> = st"
    by (simp add: model_save_same [OF d mem])
  show ?thesis
    using assms Inr inv_update_quantity [OF assms(1) mem] same
    by (auto simp: CartItemViewSet_partial_update_def UpdateCartItemSerializer_save_def Let_def
        split: sum.splits option.splits)
qed

lemma inv_destroy:
  assumes "store_inv st" and "CartItemViewSet_destroy st cart_pk pk = (res, st')"
  shows "store_inv st'"
  using assms inv_filter
  by (auto simp: CartItemViewSet_destroy_def split: sum.splits)

lemma inv_cart_destroy:
  assumes "store_inv st" and "CartViewSet_destroy st cart_pk = (res, st')"
  shows "store_inv st'"
proof (cases "cart_pk \<in> set (carts st)")
  case False
  then show ?thesis using assms by (simp add: CartViewSet_destroy_def)
next
  case True
  have "store_inv (st\<lparr>cartitems := filter (\<lambda>r. cart_id r \<noteq> cart_pk) (cartitems st)\<rparr>)"
    using assms(1) by (rule inv_filter)
  then have "store_inv (st\<lparr>carts := filter (\<lambda>c. c \<noteq> cart_pk) (carts st),
               cartitems := filter (\<lambda>r. cart_id r \<noteq> cart_pk) (cartitems st)\<rparr>)"
    by (simp add: store_inv_def primary_keys_ok_def one_row_per_pair_def)
  then show ?thesis using assms True by (auto simp: CartViewSet_destroy_def)
qed

lemma reachable_inv: "reachable st \<Longrightarrow> store_inv st"
proof (induction rule: reachable.induct)
  case (initial st)
  then show ?case by (simp add: store_inv_def primary_keys_ok_def one_row_per_pair_def)
next
  case (add st cart_pk body res st')
  then show ?case using inv_create by blast
next
  case (update st cart_pk pk body res st')
  then show ?case using inv_partial_update by blast
next
  case (remove st cart_pk pk res' st')
  then show ?case using inv_destroy by blast
next
  case (cart_delete st cart_pk res' st')
  then show ?case using inv_cart_destroy by blast
qed

lemma distinct_map_filter_le1:
  assumes "distinct (map f xs)"
  shows "length (filter (\<lambda>x. f x = k) xs) \<le> 1"
  using assms
proof (induction xs)
  case Nil
  then show ?case by simp
next
  case (Cons x xs)
  show ?case
  proof (cases "f x = k")
    case True
    have "f x \<notin> f ` set xs"
      using Cons.prems by simp
    then have "\<forall>y \<in> set xs. f y \<noteq> k"
      using True by (metis imageI)
    then have "filter (\<lambda>x. f x = k) xs = []"
      by (simp add: filter_empty_conv)
    then show ?thesis using True by simp
  next
    case False
    then show ?thesis using Cons by simp
  qed
qed

lemma is_valid_ok:
  assumes "map_of body ''product_id'' = Some pid" and "map_of body ''quantity'' = Some q"
    and "product_exists st pid" and "0 < q"
  shows "AddCartItemSerializer_is_valid st body = Inr (pid, q)"
  using assms
  by (simp add: AddCartItemSerializer_is_valid_def run_field_def validate_product_id_def
      validate_quantity_def)

lemma create_new:
  assumes "map_of body ''product_id'' = Some pid" and "map_of body ''quantity'' = Some q"
    and "product_exists st pid" and "0 < q" and "cart \<in> set (carts st)"
    and "filter (\<lambda>r. cart_id r = cart \<and> product_id r = pid) (cartitems st) = []"
  shows "CartItemViewSet_create st cart body =
           (Inr \<lparr>cartitem_pk = cartitem_seq st, cart_id = cart, product_id = pid, quantity = q\<rparr>,
            st\<lparr>cartitems := cartitems st @
                  [\<lparr>cartitem_pk = cartitem_seq st, cart_id = cart, product_id = pid, quantity = q\<rparr>],
               cartitem_seq := cartitem_seq st + 1\<rparr>)"
proof -
  have "objects_get (cartitems st) cart pid = Inl DoesNotExist"
    using assms(6) by (simp add: objects_get_DoesNotExist)
  then show ?thesis
    using assms(3,5)
    by (simp add: CartItemViewSet_create_def is_valid_ok [OF assms(1-4)]
        AddCartItemSerializer_save_def objects_create_def Let_def)
qed

lemma create_existing:
  assumes "map_of body ''product_id'' = Some pid" and "map_of body ''quantity'' = Some q"
    and "product_exists st pid" and "0 < q"
    and "objects_get (cartitems st) cart pid = Inr r"
  shows "CartItemViewSet_create st cart body =
           (Inr (r\<lparr>quantity := quantity r + q\<rparr>),
            st\<lparr>cartitems := model_save (r\<lparr>quantity := quantity r + q\<rparr>) (cartitems st)\<rparr>)"
  using assms(5)
  by (simp add: CartItemViewSet_create_def is_valid_ok [OF assms(1-4)]
      AddCartItemSerializer_save_def Let_def)

lemma model_save_fresh:
  "\<forall>x \<in> set rows. cartitem_pk x \<noteq> cartitem_pk r \<Longrightarrow> model_save r rows = rows"
  by (simp add: model_save_def map_idI)

lemma model_save_append:
  "model_save r (xs @ ys) = model_save r xs @ model_save r ys"
  by (simp add: model_save_def)

lemma unique_row:
  assumes "distinct (map pair_of rows)" and "r \<in> set rows"
  shows "filter (\<lambda>x. cart_id x = cart_id r \<and> product_id x = product_id r) rows = [r]"
  using assms
proof (induction rows)
  case Nil
  then show ?case by simp
next
  case (Cons a rows)
  show ?case
  proof (cases "a = r")
    case True
    have "pair_of r \<notin> pair_of ` set rows"
      using Cons.prems(1) True by simp
    then have "\<forall>x \<in> set rows. \<not> (cart_id x = cart_id r \<and> product_id x = product_id r)"
      by (auto simp: pair_of_def image_iff)
    then have "filter (\<lambda>x. cart_id x = cart_id r \<and> product_id x = product_id r) rows = []"
      by (simp add: filter_empty_conv)
    then show ?thesis using True by simp
  next
    case False
    then have mem: "r \<in> set rows"
      using Cons.prems(2) by simp
    have "pair_of a \<notin> pair_of ` set rows"
      using Cons.prems(1) by simp
    then have "pair_of a \<noteq> pair_of r"
      using mem by (metis imageI)
    then have "\<not> (cart_id a = cart_id r \<and> product_id a = product_id r)"
      by (auto simp: pair_of_def)
    then show ?thesis
      using Cons.IH mem Cons.prems(1) by simp
  qed
qed

lemma get_object_found:
  assumes "distinct (map cartitem_pk (cartitems st))"
    and "r \<in> set (cartitems st)" and "cart_id r = cart_pk" and "cartitem_pk r = pk"
  shows "get_object st cart_pk pk = Inr r"
proof -
  have mem: "r \<in> set (get_queryset st cart_pk)"
    using assms(2,3) by (simp add: get_queryset_def)
  then obtain r' where r': "find (\<lambda>x. cartitem_pk x = pk) (get_queryset st cart_pk) = Some r'"
    using assms(4) by (cases "find (\<lambda>x. cartitem_pk x = pk) (get_queryset st cart_pk)")
      (auto simp: find_None_iff)
  then have "r' \<in> set (get_queryset st cart_pk) \<and> cartitem_pk r' = pk"
    by (auto simp: find_Some_iff)
  then have "r' \<in> set (cartitems st) \<and> cartitem_pk r' = cartitem_pk r"
    using assms(4) by (simp add: get_queryset_def)
  moreover have "inj_on cartitem_pk (set (cartitems st))"
    using assms(1) by (simp add: distinct_map)
  ultimately have "r' = r"
    using assms(2) by (auto dest: inj_onD)
  then show ?thesis
    using r' by (simp add: get_object_def get_object_or_404_def)
qed

lemmas ex_defs = shop_def tea_def mug_def kitchen_def tea_line_def shop_with_tea_def

section \<open>Lemmas on the totals\<close>

lemma item_product_exists:
  assumes "product_exists st (product_id item)"
  shows "\<exists>product. item_product st item = Inr product"
proof -
  have "find (\<lambda>p. product_pk p = product_id item) (products st) \<noteq> None"
    using assms by (auto simp: product_exists_def list_ex_iff find_None_iff)
  then show ?thesis
    by (auto simp: item_product_def)
qed

lemma comprehension_lines:
  assumes "\<forall>item \<in> set items. product_exists st (product_id item)"
  shows "comprehension st items = Inr (map (line_total st) items)"
  using assms
proof (induction items)
  case Nil
  then show ?case by simp
next
  case (Cons item items)
  obtain product where p: "item_product st item = Inr product"
    using item_product_exists [of st item] Cons.prems by auto
  have "comprehension st items = Inr (map (line_total st) items)"
    using Cons by simp
  then show ?case
    by (simp add: p line_total_def item_unit_price_def)
qed

lemma line_total_exact:
  assumes "\<bar>quantity item * coeff (item_unit_price st item)\<bar> < 10 ^ prec"
  shows "expo (line_total st item) = expo (item_unit_price st item)"
    and "scaled e (line_total st item) = quantity item * scaled e (item_unit_price st item)"
    and "dec_val (line_total st item) = of_int (quantity item) * dec_val (item_unit_price st item)"
  using int_mul_dec_exact [OF assms]
  by (simp_all add: line_total_def scaled_def dec_val_powi)

lemma shop_two_lines_total:
  "CartSerializer_get_total_price shop_two_lines 7 = Inr (PyDecimal \<lparr>coeff = 3350, expo = - 2\<rparr>)"
  by code_simp

section \<open>Adding to a cart\<close>

text \<open>
  Claim C1. In a store whose cart holds no item for a product, adding quantity \<open>q1\<close> of
  the product and then quantity \<open>q2\<close> of it succeeds both times, and leaves exactly one
  row for that cart and product, with quantity \<open>q1 + q2\<close>. The product and the cart
  exist and the quantities are positive, as validation and the foreign keys require.
\<close>

theorem add_twice_one_row:
  assumes body1: "map_of body1 ''product_id'' = Some pid" "map_of body1 ''quantity'' = Some q1"
    and body2: "map_of body2 ''product_id'' = Some pid" "map_of body2 ''quantity'' = Some q2"
    and exists: "product_exists st pid" "cart \<in> set (carts st)"
    and pos: "0 < q1" "0 < q2"
    and keys: "primary_keys_ok st"
    and empty: "filter (\<lambda>r. cart_id r = cart \<and> product_id r = pid) (cartitems st) = []"
  shows "\<exists>r1 st1 r2 st2.
           CartItemViewSet_create st cart body1 = (Inr r1, st1) \<and>
           CartItemViewSet_create st1 cart body2 = (Inr r2, st2) \<and>
           filter (\<lambda>r. cart_id r = cart \<and> product_id r = pid) (cartitems st2) = [r2] \<and>
           quantity r2 = q1 + q2"
proof -
  let ?r1 = "\<lparr>cartitem_pk = cartitem_seq st, cart_id = cart, product_id = pid, quantity = q1\<rparr>"
  let ?st1 = "st\<lparr>cartitems := cartitems st @ [?r1], cartitem_seq := cartitem_seq st + 1\<rparr>"
  let ?r2 = "?r1\<lparr>quantity := quantity ?r1 + q2\<rparr>"
  let ?st2 = "?st1\<lparr>cartitems := model_save ?r2 (cartitems ?st1)\<rparr>"
  have step1: "CartItemViewSet_create st cart body1 = (Inr ?r1, ?st1)"
    using create_new [OF body1 exists(1) pos(1) exists(2) empty] .
  have ex1: "product_exists ?st1 pid"
    using exists(1) by (simp add: product_exists_def)
  have get1: "objects_get (cartitems ?st1) cart pid = Inr ?r1"
    using empty by (simp add: objects_get_Inr)
  have step2: "CartItemViewSet_create ?st1 cart body2 = (Inr ?r2, ?st2)"
    using create_existing [OF body2 ex1 pos(2) get1] .
  have fresh: "\<forall>x \<in> set (cartitems st). cartitem_pk x \<noteq> cartitem_seq st"
    using keys by (auto simp: primary_keys_ok_def list_all_iff)
  then have "model_save ?r2 (cartitems st) = cartitems st"
    by (intro model_save_fresh) simp
  moreover have "model_save ?r2 [?r1] = [?r2]"
    by (simp add: model_save_def)
  ultimately have rows2: "cartitems ?st2 = cartitems st @ [?r2]"
    by (simp add: model_save_append)
  have "filter (\<lambda>r. cart_id r = cart \<and> product_id r = pid) (cartitems ?st2) = [?r2]"
    using empty by (simp only: rows2 filter_append) simp
  moreover have "quantity ?r2 = q1 + q2"
    by simp
  ultimately show ?thesis
    using step1 step2 by blast
qed

theorem add_twice_one_row_witness:
  "\<exists>r1 st1 r2 st2.
     CartItemViewSet_create shop 7 [(''product_id'', 1), (''quantity'', 2)] = (Inr r1, st1) \<and>
     CartItemViewSet_create st1 7 [(''product_id'', 1), (''quantity'', 3)] = (Inr r2, st2) \<and>
     filter (\<lambda>r. cart_id r = 7 \<and> product_id r = 1) (cartitems st2) = [r2] \<and>
     quantity r2 = 2 + 3"
  using add_twice_one_row [of "[(''product_id'', 1), (''quantity'', 2)]" 1 2
      "[(''product_id'', 1), (''quantity'', 3)]" 3 shop 7]
  by (simp add: ex_defs product_exists_def primary_keys_ok_def)

text \<open>
  Claim C2. In every store reached by adding, updating and removing cart items and
  deleting carts, one request after the other, a cart and a product have at most one
  cart-item row.
\<close>

theorem reachable_one_row_per_pair:
  assumes "reachable st"
  shows "length (filter (\<lambda>r. cart_id r = cart \<and> product_id r = product) (cartitems st)) \<le> 1"
proof -
  have "distinct (map pair_of (cartitems st))"
    using reachable_inv [OF assms] by (simp add: store_inv_def one_row_per_pair_def)
  then have "length (filter (\<lambda>r. pair_of r = (cart, product)) (cartitems st)) \<le> 1"
    by (rule distinct_map_filter_le1)
  then show ?thesis by (simp add: pair_of_def)
qed

theorem reachable_one_row_per_pair_witness:
  "reachable shop_with_tea
   \<and> length (filter (\<lambda>r. cart_id r = 7 \<and> product_id r = 1) (cartitems shop_with_tea)) \<le> 1"
proof -
  have "CartItemViewSet_create shop 7 [(''product_id'', 1), (''quantity'', 2)] =
      (Inr tea_line, shop_with_tea)"
    by (simp add: ex_defs CartItemViewSet_create_def AddCartItemSerializer_is_valid_def
        run_field_def validate_product_id_def validate_quantity_def product_exists_def
        AddCartItemSerializer_save_def objects_get_def objects_create_def Let_def)
  moreover have "reachable shop"
    by (rule reachable.initial) (simp add: ex_defs)
  ultimately have r: "reachable shop_with_tea"
    by (rule reachable.add [rotated])
  show ?thesis
    using r reachable_one_row_per_pair [OF r, of 7 1] by simp
qed

text \<open>
  Claim C7. Adding a cart item whose product id is the id of no product fails with a
  validation error on \<open>product_id\<close>, and the store (so the cart's items) is unchanged.
\<close>

theorem add_unknown_product_rejected:
  assumes "map_of body ''product_id'' = Some pid" and "\<not> product_exists st pid"
  shows "\<exists>errors. CartItemViewSet_create st cart_pk body = (Inl (ValidationError errors), st)
           \<and> (''product_id'', ''No product with the given ID was found.'') \<in> set errors"
  using assms
  by (auto simp: CartItemViewSet_create_def AddCartItemSerializer_is_valid_def run_field_def
      validate_product_id_def field_errors_def Let_def split: sum.splits option.splits)

theorem add_unknown_product_rejected_witness:
  "\<exists>errors. CartItemViewSet_create shop 7 [(''product_id'', 99), (''quantity'', 1)] =
       (Inl (ValidationError errors), shop)
     \<and> (''product_id'', ''No product with the given ID was found.'') \<in> set errors"
  using add_unknown_product_rejected [of "[(''product_id'', 99), (''quantity'', 1)]" 99 shop 7]
  by (simp add: ex_defs product_exists_def)

text \<open>
  Claim C10. When the cart already has a row for the product, adding the product again
  changes the quantity of that row and nothing else: the row keeps its primary key, cart
  and product, every other row of every cart is as it was, and so is every other table.
\<close>

theorem add_existing_only_quantity:
  assumes body: "map_of body ''product_id'' = Some pid" "map_of body ''quantity'' = Some q"
    and valid: "product_exists st pid" "0 < q"
    and keys: "primary_keys_ok st" and pairs: "one_row_per_pair st"
    and row: "r \<in> set (cartitems st)" "cart_id r = cart" "product_id r = pid"
  shows "CartItemViewSet_create st cart body =
           (Inr (r\<lparr>quantity := quantity r + q\<rparr>),
            st\<lparr>cartitems :=
                 map (\<lambda>x. if x = r then x\<lparr>quantity := quantity x + q\<rparr> else x) (cartitems st)\<rparr>)"
proof -
  have d: "distinct (map cartitem_pk (cartitems st))"
    using keys by (simp add: primary_keys_ok_def)
  have "filter (\<lambda>x. cart_id x = cart \<and> product_id x = pid) (cartitems st) = [r]"
    using unique_row [of "cartitems st" r] pairs row by (simp add: one_row_per_pair_def)
  then have get: "objects_get (cartitems st) cart pid = Inr r"
    by (simp add: objects_get_Inr)
  have "model_save (r\<lparr>quantity := quantity r + q\<rparr>) (cartitems st) =
          map (\<lambda>x. if x = r then x\<lparr>quantity := quantity x + q\<rparr> else x) (cartitems st)"
    by (simp add: model_save_quantity [OF d row(1)] cong: if_cong)
  then show ?thesis
    using create_existing [OF body valid get] by simp
qed

theorem add_existing_only_quantity_witness:
  "CartItemViewSet_create shop_with_tea 7 [(''product_id'', 1), (''quantity'', 3)] =
     (Inr \<lparr>cartitem_pk = 1, cart_id = 7, product_id = 1, quantity = 5\<rparr>,
      shop_with_tea\<lparr>cartitems := [\<lparr>cartitem_pk = 1, cart_id = 7, product_id = 1, quantity = 5\<rparr>]\<rparr>)"
  using add_existing_only_quantity [of "[(''product_id'', 1), (''quantity'', 3)]" 1 3
      shop_with_tea tea_line 7]
  by (simp add: ex_defs product_exists_def primary_keys_ok_def one_row_per_pair_def)

section \<open>Updating a cart item\<close>

text \<open>
  Claim C8. For an existing item of a cart, a partial update with a quantity that is zero
  or negative is rejected with a validation error and changes nothing; one with a
  positive quantity succeeds and sets the quantity of that row to the value given. The
  item's total price is then the product, in decimal arithmetic, of the new quantity and
  the unit price of its product, and as a number it is the new quantity times the unit
  price whenever that product has no more digits than the precision of the decimal
  context. Whatever the body holds, the update changes no primary key, cart or product of
  any row, no row other than the item, and no other table.
\<close>

theorem update_quantity:
  assumes keys: "primary_keys_ok st"
    and row: "r \<in> set (cartitems st)" "cart_id r = cart_pk" "cartitem_pk r = pk"
  shows "(map_of body ''quantity'' = Some q \<and> q \<le> 0 \<longrightarrow>
            (\<exists>errors. CartItemViewSet_partial_update st cart_pk pk body =
               (Inl (ValidationError errors), st)))
       \<and> (map_of body ''quantity'' = Some q \<and> 0 < q \<longrightarrow>
            CartItemViewSet_partial_update st cart_pk pk body =
              (Inr (r\<lparr>quantity := q\<rparr>),
               st\<lparr>cartitems := map (\<lambda>x. if x = r then x\<lparr>quantity := q\<rparr> else x) (cartitems st)\<rparr>)
          \<and> (\<forall>product. item_product st r = Inr product \<longrightarrow>
                (\<exists>total.
                   CartItemSerializer_get_total_price
                     (snd (CartItemViewSet_partial_update st cart_pk pk body))
                     (r\<lparr>quantity := q\<rparr>) = Inr total
                   \<and> total = int_mul_dec q (unit_price product)
                   \<and> (\<bar>q * coeff (unit_price product)\<bar> < 10 ^ prec \<longrightarrow>
                        dec_val total = of_int q * dec_val (unit_price product)))))
       \<and> (\<exists>res st'. CartItemViewSet_partial_update st cart_pk pk body = (res, st')
            \<and> length (cartitems st') = length (cartitems st)
            \<and> list_all2 (\<lambda>x y. cartitem_pk y = cartitem_pk x \<and> cart_id y = cart_id x
                  \<and> product_id y = product_id x \<and> (x \<noteq> r \<longrightarrow> y = x))
                (cartitems st) (cartitems st')
            \<and> st'\<lparr>cartitems := cartitems st\<rparr> = st)"
proof -
  have d: "distinct (map cartitem_pk (cartitems st))"
    using keys by (simp add: primary_keys_ok_def)
  have get: "get_object st cart_pk pk = Inr r"
    using get_object_found [OF d row] .
  have save: "\<And>v. model_save (r\<lparr>quantity := v\<rparr>) (cartitems st) =
      map (\<lambda>x. if x = r then x\<lparr>quantity := v\<rparr> else x) (cartitems st)"
    by (simp add: model_save_quantity [OF d row(1)] cong: if_cong)
  have same: "model_save r (cartitems st) = cartitems st"
    using model_save_same [OF d row(1)] .
  have a: "map_of body ''quantity'' = Some q \<and> q \<le> 0 \<longrightarrow>
            (\<exists>errors. CartItemViewSet_partial_update st cart_pk pk body =
               (Inl (ValidationError errors), st))"
    by (simp add: CartItemViewSet_partial_update_def get UpdateCartItemSerializer_is_valid_def
        validate_quantity_def)
  have b1: "map_of body ''quantity'' = Some q \<and> 0 < q \<longrightarrow>
            CartItemViewSet_partial_update st cart_pk pk body =
              (Inr (r\<lparr>quantity := q\<rparr>),
               st\<lparr>cartitems := map (\<lambda>x. if x = r then x\<lparr>quantity := q\<rparr> else x) (cartitems st)\<rparr>)"
    by (simp add: CartItemViewSet_partial_update_def get UpdateCartItemSerializer_is_valid_def
        validate_quantity_def UpdateCartItemSerializer_save_def save)
  have b2: "map_of body ''quantity'' = Some q \<and> 0 < q \<longrightarrow>
          (\<forall>product. item_product st r = Inr product \<longrightarrow>
                (\<exists>total.
                   CartItemSerializer_get_total_price
                     (snd (CartItemViewSet_partial_update st cart_pk pk body))
                     (r\<lparr>quantity := q\<rparr>) = Inr total
                   \<and> total = int_mul_dec q (unit_price product)
                   \<and> (\<bar>q * coeff (unit_price product)\<bar> < 10 ^ prec \<longrightarrow>
                        dec_val total = of_int q * dec_val (unit_price product))))"
  proof (intro impI allI)
    fix product
    assume valid: "map_of body ''quantity'' = Some q \<and> 0 < q"
      and product: "item_product st r = Inr product"
    have "CartItemSerializer_get_total_price
            (snd (CartItemViewSet_partial_update st cart_pk pk body)) (r\<lparr>quantity := q\<rparr>) =
          Inr (int_mul_dec q (unit_price product))"
      using b1 valid product
      by (auto simp: CartItemSerializer_get_total_price_def item_product_def split: option.splits)
    then show "\<exists>total.
        CartItemSerializer_get_total_price
          (snd (CartItemViewSet_partial_update st cart_pk pk body)) (r\<lparr>quantity := q\<rparr>) = Inr total
        \<and> total = int_mul_dec q (unit_price product)
        \<and> (\<bar>q * coeff (unit_price product)\<bar> < 10 ^ prec \<longrightarrow>
             dec_val total = of_int q * dec_val (unit_price product))"
      using int_mul_dec_val [of q "unit_price product"] by simp
  qed
  have frame: "\<And>v. list_all2 (\<lambda>x y. cartitem_pk y = cartitem_pk x \<and> cart_id y = cart_id x
                  \<and> product_id y = product_id x \<and> (x \<noteq> r \<longrightarrow> y = x))
                (cartitems st) (map (\<lambda>x. if x = r then x\<lparr>quantity := v\<rparr> else x) (cartitems st))"
    by (simp add: list_all2_map2 list_all2_same)
  have c: "\<exists>res st'. CartItemViewSet_partial_update st cart_pk pk body = (res, st')
            \<and> length (cartitems st') = length (cartitems st)
            \<and> list_all2 (\<lambda>x y. cartitem_pk y = cartitem_pk x \<and> cart_id y = cart_id x
                  \<and> product_id y = product_id x \<and> (x \<noteq> r \<longrightarrow> y = x))
                (cartitems st) (cartitems st')
            \<and> st'\<lparr>cartitems := cartitems st\<rparr> = st"
  proof (cases "UpdateCartItemSerializer_is_valid body")
    case (Inl e)
    then show ?thesis
      by (simp add: CartItemViewSet_partial_update_def get list_all2_same)
  next
    case (Inr vd)
    show ?thesis
    proof (cases vd)
      case None
      then show ?thesis
        using Inr
        by (simp add: CartItemViewSet_partial_update_def get UpdateCartItemSerializer_save_def
            same list_all2_same)
    next
      case (Some v)
      then show ?thesis
        using Inr frame [of v]
        by (simp add: CartItemViewSet_partial_update_def get UpdateCartItemSerializer_save_def
            save)
    qed
  qed
  show ?thesis
    using a b1 b2 c by blast
qed

theorem update_quantity_witness:
  "(\<exists>errors. CartItemViewSet_partial_update shop_with_tea 7 1 [(''quantity'', 0)] =
       (Inl (ValidationError errors), shop_with_tea))
   \<and> CartItemViewSet_partial_update shop_with_tea 7 1 [(''quantity'', 4), (''product_id'', 2)] =
       (Inr \<lparr>cartitem_pk = 1, cart_id = 7, product_id = 1, quantity = 4\<rparr>,
        shop_with_tea\<lparr>cartitems := [\<lparr>cartitem_pk = 1, cart_id = 7, product_id = 1, quantity = 4\<rparr>]\<rparr>)
   \<and> (\<exists>total.
         CartItemSerializer_get_total_price
           (snd (CartItemViewSet_partial_update shop_with_tea 7 1
                   [(''quantity'', 4), (''product_id'', 2)]))
           \<lparr>cartitem_pk = 1, cart_id = 7, product_id = 1, quantity = 4\<rparr> = Inr total
         \<and> total = \<lparr>coeff = 4000, expo = - 2\<rparr>
         \<and> dec_val total = 40
         \<and> dec_val total = of_int 4 * dec_val (unit_price tea))"
proof -
  have keys: "primary_keys_ok shop_with_tea"
    by (simp add: ex_defs primary_keys_ok_def)
  have row: "tea_line \<in> set (cartitems shop_with_tea)" "cart_id tea_line = 7"
      "cartitem_pk tea_line = 1"
    by (simp_all add: ex_defs)
  have product: "item_product shop_with_tea tea_line = Inr tea"
    by (simp add: ex_defs item_product_def)
  have small: "\<bar>4 * coeff (unit_price tea)\<bar> < 10 ^ prec"
    by (simp add: tea_def prec_def)
  have line: "int_mul_dec 4 (unit_price tea) = \<lparr>coeff = 4000, expo = - 2\<rparr>"
    by code_simp
  have forty: "dec_val \<lparr>coeff = 4000, expo = - 2\<rparr> = 40"
    by code_simp
  have updated: "tea_line\<lparr>quantity := 4\<rparr> =
      \<lparr>cartitem_pk = 1, cart_id = 7, product_id = 1, quantity = 4\<rparr>"
    by (simp add: tea_line_def)
  have rows: "map (\<lambda>x. if x = tea_line then x\<lparr>quantity := 4\<rparr> else x) (cartitems shop_with_tea) =
      [\<lparr>cartitem_pk = 1, cart_id = 7, product_id = 1, quantity = 4\<rparr>]"
    by (simp add: ex_defs)
  have body0: "map_of [(''quantity'', 0::int)] ''quantity'' = Some 0"
    and body4: "map_of [(''quantity'', 4::int), (''product_id'', 2)] ''quantity'' = Some 4"
    by simp_all
  have rejected: "\<exists>errors. CartItemViewSet_partial_update shop_with_tea 7 1 [(''quantity'', 0)] =
      (Inl (ValidationError errors), shop_with_tea)"
    using update_quantity [OF keys row, of "[(''quantity'', 0)]" 0] body0 by simp
  note four = update_quantity [OF keys row, of "[(''quantity'', 4), (''product_id'', 2)]" 4]
  have valid4: "map_of [(''quantity'', 4), (''product_id'', 2)] ''quantity'' = Some 4 \<and> (0::int) < 4"
    by simp
  have accepted: "CartItemViewSet_partial_update shop_with_tea 7 1
      [(''quantity'', 4), (''product_id'', 2)] =
      (Inr \<lparr>cartitem_pk = 1, cart_id = 7, product_id = 1, quantity = 4\<rparr>,
       shop_with_tea\<lparr>cartitems := [\<lparr>cartitem_pk = 1, cart_id = 7, product_id = 1, quantity = 4\<rparr>]\<rparr>)"
    using four body4 by (simp add: updated rows)
  have "\<exists>total.
      CartItemSerializer_get_total_price
        (snd (CartItemViewSet_partial_update shop_with_tea 7 1
                [(''quantity'', 4), (''product_id'', 2)]))
        (tea_line\<lparr>quantity := 4\<rparr>) = Inr total
      \<and> total = int_mul_dec 4 (unit_price tea)
      \<and> dec_val total = of_int 4 * dec_val (unit_price tea)"
    using four [THEN conjunct2, THEN conjunct1, THEN mp, OF valid4, THEN conjunct2,
        THEN spec, THEN mp, OF product] small
    by blast
  then have total: "\<exists>total.
      CartItemSerializer_get_total_price
        (snd (CartItemViewSet_partial_update shop_with_tea 7 1
                [(''quantity'', 4), (''product_id'', 2)]))
        \<lparr>cartitem_pk = 1, cart_id = 7, product_id = 1, quantity = 4\<rparr> = Inr total
      \<and> total = \<lparr>coeff = 4000, expo = - 2\<rparr>
      \<and> dec_val total = 40
      \<and> dec_val total = of_int 4 * dec_val (unit_price tea)"
    using forty by (simp only: line updated) auto
  show ?thesis
    using rejected accepted total by blast
qed

section \<open>Totals\<close>

text \<open>
  Claim C9. The total price of a cart with no item is \<open>0\<close>, the sum of no element.
\<close>

theorem empty_cart_total_zero:
  assumes "items_all st cart = []"
  shows "CartSerializer_get_total_price st cart = Inr (PyInt 0)"
  using assms by (simp add: CartSerializer_get_total_price_def py_sum_def)

theorem empty_cart_total_zero_witness:
  "CartSerializer_get_total_price shop 7 = Inr (PyInt 0)"
  using empty_cart_total_zero [of shop 7]
  by (simp add: ex_defs items_all_def)

text \<open>
  Claim C3. The total price of a cart is the sum, as Python's \<^verbatim>\<open>sum\<close> computes it, of
  quantity times unit price over the items of the cart, each of these being the item's
  own total price. Where the exact sum has no more digits than the precision of the
  decimal context (at the scale \<open>e\<close> of the finest price), no rounding takes place and
  the total is that sum as a number.
\<close>

theorem cart_total_price:
  assumes fk: "\<forall>item \<in> set (items_all st cart). product_exists st (product_id item)"
  shows "CartSerializer_get_total_price st cart =
           Inr (py_sum (map (line_total st) (items_all st cart)))
       \<and> (\<forall>item \<in> set (items_all st cart).
             CartItemSerializer_get_total_price st item = Inr (line_total st item))
       \<and> (e \<le> 0
            \<and> (\<forall>item \<in> set (items_all st cart). e \<le> expo (item_unit_price st item))
            \<and> (\<Sum>item\<leftarrow>items_all st cart.
                  \<bar>quantity item * scaled e (item_unit_price st item)\<bar>) < 10 ^ prec
          \<longrightarrow> num_val (py_sum (map (line_total st) (items_all st cart))) =
                (\<Sum>item\<leftarrow>items_all st cart.
                    of_int (quantity item) * dec_val (item_unit_price st item)))"
proof -
  let ?items = "items_all st cart"
  have total: "CartSerializer_get_total_price st cart = Inr (py_sum (map (line_total st) ?items))"
    by (simp add: CartSerializer_get_total_price_def comprehension_lines [OF fk])
  have each: "\<forall>item \<in> set ?items.
      CartItemSerializer_get_total_price st item = Inr (line_total st item)"
  proof
    fix item assume "item \<in> set ?items"
    then obtain product where "item_product st item = Inr product"
      using item_product_exists [of st item] fk by auto
    then show "CartItemSerializer_get_total_price st item = Inr (line_total st item)"
      by (simp add: CartItemSerializer_get_total_price_def line_total_def item_unit_price_def)
  qed
  have exact: "num_val (py_sum (map (line_total st) ?items)) =
      (\<Sum>item\<leftarrow>?items. of_int (quantity item) * dec_val (item_unit_price st item))"
    if e: "e \<le> 0" and scale: "\<forall>item \<in> set ?items. e \<le> expo (item_unit_price st item)"
      and bound: "(\<Sum>item\<leftarrow>?items. \<bar>quantity item * scaled e (item_unit_price st item)\<bar>) < 10 ^ prec"
  proof -
    have small: "\<bar>quantity item * coeff (item_unit_price st item)\<bar> < 10 ^ prec"
      if "item \<in> set ?items" for item
    proof -
      have "\<bar>quantity item * scaled e (item_unit_price st item)\<bar>
          \<le> (\<Sum>item\<leftarrow>?items. \<bar>quantity item * scaled e (item_unit_price st item)\<bar>)"
        using that by (intro member_le_sum_list) auto
      moreover have "\<bar>quantity item * coeff (item_unit_price st item)\<bar>
          \<le> \<bar>quantity item * scaled e (item_unit_price st item)\<bar>"
        using abs_le_abs_mult_power [of "quantity item * coeff (item_unit_price st item)"]
        by (simp add: scaled_def mult.assoc)
      ultimately show ?thesis
        using bound by linarith
    qed
    have expos: "\<forall>d \<in> set (map (line_total st) ?items). e \<le> expo d"
      using scale small by (auto simp: line_total_exact(1))
    have "(\<Sum>d\<leftarrow>map (line_total st) ?items. \<bar>scaled e d\<bar>) =
        (\<Sum>item\<leftarrow>?items. \<bar>quantity item * scaled e (item_unit_price st item)\<bar>)"
      using small by (simp add: comp_def line_total_exact(2) cong: map_cong)
    then have "(\<Sum>d\<leftarrow>map (line_total st) ?items. \<bar>scaled e d\<bar>) < 10 ^ prec"
      using bound by simp
    then have "num_val (py_sum (map (line_total st) ?items)) =
        (\<Sum>d\<leftarrow>map (line_total st) ?items. dec_val d)"
      using py_sum_exact [OF e expos] by simp
    also have "\<dots> = (\<Sum>item\<leftarrow>?items. of_int (quantity item) * dec_val (item_unit_price st item))"
      using small by (simp add: comp_def line_total_exact(3) cong: map_cong)
    finally show ?thesis .
  qed
  show ?thesis
    using total each exact by blast
qed

theorem cart_total_price_witness:
  "CartSerializer_get_total_price shop_two_lines 7 = Inr (PyDecimal \<lparr>coeff = 3350, expo = - 2\<rparr>)
   \<and> py_sum (map (line_total shop_two_lines) (items_all shop_two_lines 7)) =
       PyDecimal \<lparr>coeff = 3350, expo = - 2\<rparr>
   \<and> (\<Sum>item\<leftarrow>items_all shop_two_lines 7.
         of_int (quantity item) * dec_val (item_unit_price shop_two_lines item)) = 67 / 2"
proof -
  have fk: "\<forall>item \<in> set (items_all shop_two_lines 7).
      product_exists shop_two_lines (product_id item)"
    by code_simp
  have scale: "\<forall>item \<in> set (items_all shop_two_lines 7).
      - 2 \<le> expo (item_unit_price shop_two_lines item)"
    by code_simp
  have bound: "(\<Sum>item\<leftarrow>items_all shop_two_lines 7.
      \<bar>quantity item * scaled (- 2) (item_unit_price shop_two_lines item)\<bar>) < 10 ^ prec"
    by code_simp
  have val: "num_val (PyDecimal \<lparr>coeff = 3350, expo = - 2\<rparr>) = 67 / 2"
    by code_simp
  show ?thesis
    using cart_total_price [OF fk, of "- 2"] scale bound shop_two_lines_total val
    by simp
qed

section \<open>Price with tax\<close>

text \<open>
  Claim C4, evaluated at a product of unit price 10.00: \<^verbatim>\<open>Decimal(1.1)\<close> is the double
  nearest to 1.1, written out exactly, so the price with tax is
  11.00000000000000088817841970 and not 11.
\<close>

theorem calculate_tax_of_ten:
  "calculate_tax tea = \<lparr>coeff = 1100000000000000088817841970, expo = - 26\<rparr>
   \<and> dec_val (calculate_tax tea) \<noteq> dec_val (unit_price tea) * (11 / 10)"
  by code_simp

section \<open>Deletion guards\<close>

text \<open>
  Claim C5. Deleting a collection that owns at least one product answers with status 405
  and the body \<open>{error: message}\<close>, and leaves the store (the collection and its
  products among the rest) as it was.
\<close>

theorem collection_delete_conflict:
  assumes "c \<in> set (collections st)" and "collection_pk c = pk"
    and "p \<in> set (products st)" and "collection_id p = pk"
  shows "CollectionViewSet_delete st pk =
           (Inr (Response
              (Some [(''error'',
                 ''Collection cannot be deleted because it includes one or more products.'')])
              405), st)"
proof -
  obtain c' where c': "get_object_or_404 collection_pk (collections st) pk = Inr c'"
    "collection_pk c' = pk"
    using get_object_or_404_found [of c "collections st" collection_pk pk] assms(1,2) by blast
  have "p \<in> set (filter (\<lambda>p. collection_id p = collection_pk c') (products st))"
    using assms(3,4) c'(2) by simp
  then have "0 < products_count st c'"
    unfolding products_count_def by (metis length_pos_if_in_set)
  then show ?thesis
    by (simp add: CollectionViewSet_delete_def c'(1) HTTP_405_METHOD_NOT_ALLOWED_def)
qed

theorem collection_delete_conflict_witness:
  "CollectionViewSet_delete shop 1 =
     (Inr (Response
        (Some [(''error'',
           ''Collection cannot be deleted because it includes one or more products.'')])
        405), shop)"
  using collection_delete_conflict [of kitchen shop 1 tea]
  by (simp add: ex_defs)

text \<open>
  Claim C6. Deleting a product that an order line refers to answers with the error
  response (status 405) in place of an exception and leaves the store as it was; deleting
  a product that no order line refers to removes it and answers with status 204.
\<close>

theorem product_delete_guard:
  assumes "p \<in> set (products st)" and "product_pk p = pk"
  shows "((\<exists>oi \<in> set (orderitems st). orderitem_product_id oi = pk) \<longrightarrow>
            ProductViewSet_delete st pk =
              (Inr (Response
                 (Some [(''error'',
                    ''Product cannot be deleted because it is associated with an order item.'')])
                 405), st))
       \<and> ((\<forall>oi \<in> set (orderitems st). orderitem_product_id oi \<noteq> pk) \<longrightarrow>
            (\<exists>st'. ProductViewSet_delete st pk = (Inr (Response None 204), st')
               \<and> products st' = filter (\<lambda>x. product_pk x \<noteq> pk) (products st)
               \<and> \<not> product_exists st' pk))"
proof -
  obtain p' where p': "get_object_or_404 product_pk (products st) pk = Inr p'"
    "product_pk p' = pk"
    using get_object_or_404_found [of p "products st" product_pk pk] assms(1,2) by blast
  have cnt: "0 < orderitems_count st p' \<longleftrightarrow> (\<exists>oi \<in> set (orderitems st). orderitem_product_id oi = pk)"
    unfolding orderitems_count_def using p'(2) by (auto simp: filter_empty_conv)
  show ?thesis
    using cnt
    by (auto simp: ProductViewSet_delete_def p' HTTP_405_METHOD_NOT_ALLOWED_def
        HTTP_204_NO_CONTENT_def Product_delete_def product_exists_def list_ex_iff)
qed

theorem product_delete_guard_witness:
  "ProductViewSet_delete shop 1 =
     (Inr (Response
        (Some [(''error'',
           ''Product cannot be deleted because it is associated with an order item.'')])
        405), shop)
   \<and> (\<exists>st'. ProductViewSet_delete shop 2 = (Inr (Response None 204), st')
         \<and> products st' = [tea] \<and> \<not> product_exists st' 2)"
  using product_delete_guard [of tea shop 1] product_delete_guard [of mug shop 2]
  by (simp add: ex_defs)

end
